theory Spec2Isabelle
  imports Main
begin

section \<open>Values of the collection helpers\<close>

text \<open>
  The helper module of \<^verbatim>\<open>Option.js\<close> works on untyped JavaScript values. The values
  modelled are the data the helpers inspect: the primitives, true arrays and plain objects.
  An array carries its slots (\<open>None\<close> is a hole of a sparse array) and a plain object its own
  enumerable properties in \<^verbatim>\<open>for ... in\<close> order, each key once. Both carry a reference,
  because strict equality on them is identity; a value is immutable, so a callback is taken
  not to change the collection it is called from. Numbers are the integral doubles and \<open>NaN\<close>; fractions and
  infinities, functions stored as data, cyclic structures and exotic host objects are outside
  the model. A string is its list of code units.
\<close>

type_synonym ref = nat

datatype val =
    Undefined
  | Null
  | Bool bool
  | Num int
  | NaN
  | Str string
  | Arr ref "val option list"
  | Obj ref "(string \<times> val) list"

text \<open>
  A thrown value: the engine's \<^verbatim>\<open>TypeError\<close> or \<^verbatim>\<open>RangeError\<close>, or whatever a
  callback throws.
\<close>

datatype error = TypeError | RangeError | Thrown val

text \<open>
  What a helper hands back: a value it was given or computed, or a container it has just
  created (written \<^verbatim>\<open>[]\<close> or \<^verbatim>\<open>{}\<close> in the source), whose reference is fresh. The
  last form is a new object whose prototype an assignment to \<^verbatim>\<open>__proto__\<close> has replaced
  by the given value.
\<close>

datatype ret =
    Value val
  | NewArray "val option list"
  | NewObject "(string \<times> val) list"
  | NewObjectWithProto val "(string \<times> val) list"

text \<open>\<^verbatim>\<open>if (v)\<close>: the falsy values are undefined, null, false, 0, NaN and the empty string.\<close>

fun truthy :: "val \<Rightarrow> bool" where
  "truthy Undefined = False"
| "truthy Null = False"
| "truthy (Bool b) = b"
| "truthy (Num n) = (n \<noteq> 0)"
| "truthy NaN = False"
| "truthy (Str s) = (s \<noteq> [])"
| "truthy (Arr r xs) = True"
| "truthy (Obj r ps) = True"

text \<open>\<^verbatim>\<open>a === b\<close>: primitives by value with NaN unequal to itself, containers by reference.\<close>

fun strict_eq :: "val \<Rightarrow> val \<Rightarrow> bool" where
  "strict_eq Undefined Undefined = True"
| "strict_eq Null Null = True"
| "strict_eq (Bool a) (Bool b) = (a = b)"
| "strict_eq (Num a) (Num b) = (a = b)"
| "strict_eq (Str a) (Str b) = (a = b)"
| "strict_eq (Arr r xs) (Arr r' ys) = (r = r')"
| "strict_eq (Obj r ps) (Obj r' qs) = (r = r')"
| "strict_eq a b = False"

text \<open>\<^verbatim>\<open>Array.isArray\<close>.\<close>

fun isArray :: "val \<Rightarrow> bool" where
  "isArray (Arr r xs) = True"
| "isArray v = False"

subsection \<open>Decimal keys\<close>

text \<open>
  An index used as a property key, and \<^verbatim>\<open>n + ''\<close> on a non-negative integer below
  \<open>10\<^sup>2\<^sup>1\<close>, is the decimal numeral of the number.
\<close>

definition digit_char :: "nat \<Rightarrow> char" where
  "digit_char d = ''0123456789'' ! d"

function string_of_nat :: "nat \<Rightarrow> string" where
  "string_of_nat n =
     (if n < 10 then [digit_char n] else string_of_nat (n div 10) @ [digit_char (n mod 10)])"
  by pat_completeness auto
termination
  by (relation "measure (\<lambda>n. n)") auto

declare string_of_nat.simps [simp del]

subsection \<open>Property reads\<close>

text \<open>An absent slot or property reads as undefined.\<close>

definition slot_val :: "val option \<Rightarrow> val" where
  "slot_val x = (case x of None \<Rightarrow> Undefined | Some v \<Rightarrow> v)"

definition getProp :: "(string \<times> val) list \<Rightarrow> string \<Rightarrow> val" where
  "getProp ps k = slot_val (map_of ps k)"

text \<open>
  \<^verbatim>\<open>obj.length\<close>. Reading a property of undefined or null throws; a boolean or a number
  has no such property.
\<close>

fun getLength :: "val \<Rightarrow> error + val" where
  "getLength Undefined = Inl TypeError"
| "getLength Null = Inl TypeError"
| "getLength (Str s) = Inr (Num (int (length s)))"
| "getLength (Arr r xs) = Inr (Num (int (length xs)))"
| "getLength (Obj r ps) = Inr (getProp ps ''length'')"
| "getLength v = Inr Undefined"

text \<open>
  The own enumerable properties that \<^verbatim>\<open>for (const key in obj)\<close> visits and
  \<^verbatim>\<open>hasOwnProperty\<close> accepts: the filled slots of an array and the code units of a string
  under their indices, the properties of a plain object, nothing for another primitive.
\<close>

fun indexed :: "nat \<Rightarrow> 'a list \<Rightarrow> (nat \<times> 'a) list" where
  "indexed i [] = []"
| "indexed i (x # xs) = (i, x) # indexed (Suc i) xs"

fun ownEnumerable :: "val \<Rightarrow> (string \<times> val) list" where
  "ownEnumerable (Obj r ps) = ps"
| "ownEnumerable (Arr r xs) =
     concat (map (\<lambda>(i, x). case x of None \<Rightarrow> [] | Some v \<Rightarrow> [(string_of_nat i, v)])
                 (indexed 0 xs))"
| "ownEnumerable (Str s) = map (\<lambda>(i, c). (string_of_nat i, Str [c])) (indexed 0 s)"
| "ownEnumerable v = []"

section \<open>The helpers\<close>

subsection \<open>has\<close>

text \<open>
  \<^verbatim>\<open>Object.prototype.hasOwnProperty.call(obj, key)\<close> cannot make an object of undefined
  or null, and throws. The own properties that are not enumerable are \<^verbatim>\<open>length\<close> of an
  array and of a string.
\<close>

fun hasOwnProperty_call :: "val \<Rightarrow> string \<Rightarrow> error + bool" where
  "hasOwnProperty_call Undefined key = Inl TypeError"
| "hasOwnProperty_call Null key = Inl TypeError"
| "hasOwnProperty_call (Arr r xs) key =
     Inr (key = ''length'' \<or> key \<in> fst ` set (ownEnumerable (Arr r xs)))"
| "hasOwnProperty_call (Str s) key =
     Inr (key = ''length'' \<or> key \<in> fst ` set (ownEnumerable (Str s)))"
| "hasOwnProperty_call obj key = Inr (key \<in> fst ` set (ownEnumerable obj))"

text \<open>
  \<^verbatim>\<open>obj !== undefined && obj !== null && Object.prototype.hasOwnProperty.call(obj, key)\<close>
\<close>

definition has :: "val \<Rightarrow> string \<Rightarrow> error + bool" where
  "has obj key =
     (if obj \<noteq> Undefined \<and> obj \<noteq> Null then hasOwnProperty_call obj key else Inr False)"

subsection \<open>isArrayLike\<close>

text \<open>
  \<^verbatim>\<open>
  if (Array.isArray(obj)) return true;
  if (typeof obj === 'string') return false;
  const length = obj.length;
  return typeof length === 'number' && length >= 0;
  \<close>
\<close>

definition isArrayLike :: "val \<Rightarrow> error + bool" where
  "isArrayLike obj =
     (if isArray obj then Inr True
      else case obj of
        Str s \<Rightarrow> Inr False
      | _ \<Rightarrow> (case getLength obj of
                Inl e \<Rightarrow> Inl e
              | Inr (Num n) \<Rightarrow> Inr (n \<ge> 0)
              | Inr _ \<Rightarrow> Inr False))"


text \<open>
  The slots \<open>0 .. length - 1\<close> of an array-like value, as indexed reads see them:
  \<^verbatim>\<open>obj[i]\<close> on a plain object reads the property whose key is the numeral of \<open>i\<close>.
\<close>

fun arraySlots :: "val \<Rightarrow> val option list" where
  "arraySlots (Arr r xs) = xs"
| "arraySlots (Obj r ps) =
     (case getProp ps ''length'' of
        Num n \<Rightarrow> map (\<lambda>i. map_of ps (string_of_nat i)) [0..<nat n]
      | _ \<Rightarrow> [])"
| "arraySlots v = []"

subsection \<open>Callbacks\<close>

text \<open>
  A predicate argument is either a function or some other value (undefined when the argument
  is left out). A function is called with its \<^verbatim>\<open>this\<close>, its argument list and the state
  of the world outside the collection; it returns or throws, and leaves a new state.
  \<^verbatim>\<open>predicate.call(context, ...)\<close> on anything but a function is a TypeError.
\<close>

type_synonym 's fn = "val \<Rightarrow> val list \<Rightarrow> 's \<Rightarrow> (error + val) \<times> 's"

datatype 's callee = NotFn val | Fn "'s fn"

fun callee_truthy :: "'s callee \<Rightarrow> bool" where
  "callee_truthy (Fn f) = True"
| "callee_truthy (NotFn v) = truthy v"

fun invoke :: "'s callee \<Rightarrow> 's fn" where
  "invoke (Fn f) this args s = f this args s"
| "invoke (NotFn v) this args s = (Inl TypeError, s)"

text \<open>
  \<^verbatim>\<open>Array.prototype.forEach\<close> with a one-parameter callback: the filled slots in
  ascending order, holes skipped, stopped by a throw.
\<close>

fun forEach :: "val option list \<Rightarrow> (val \<Rightarrow> 's \<Rightarrow> (error + val) \<times> 's) \<Rightarrow> 's
    \<Rightarrow> (error + val) \<times> 's" where
  "forEach [] cb s = (Inr Undefined, s)"
| "forEach (None # xs) cb s = forEach xs cb s"
| "forEach (Some x # xs) cb s =
     (case cb x s of
        (Inl e, s') \<Rightarrow> (Inl e, s')
      | (Inr _, s') \<Rightarrow> forEach xs cb s')"

subsection \<open>each\<close>

text \<open>
  \<^verbatim>\<open>
  if (obj) {
    if (isArrayLike(obj)) {
      obj.forEach((elm) => { predicate.call(context, elm); });
    } else {
      predicate.call(context, obj);
    }
  }
  \<close>
  Only a true array has a \<^verbatim>\<open>forEach\<close> method: on a plain object with a length,
  \<^verbatim>\<open>obj.forEach\<close> is undefined and the call is a TypeError.
\<close>

definition each :: "val \<Rightarrow> 's callee \<Rightarrow> val \<Rightarrow> 's \<Rightarrow> (error + val) \<times> 's" where
  "each obj predicate context s =
     (if truthy obj then
        (case isArrayLike obj of
           Inl e \<Rightarrow> (Inl e, s)
         | Inr True \<Rightarrow>
             (case obj of
                Arr r xs \<Rightarrow> forEach xs (\<lambda>elm. invoke predicate context [elm]) s
              | _ \<Rightarrow> (Inl TypeError, s))
         | Inr False \<Rightarrow>
             (case invoke predicate context [obj] s of
                (Inl e, s') \<Rightarrow> (Inl e, s')
              | (Inr _, s') \<Rightarrow> (Inr Undefined, s')))
      else (Inr Undefined, s))"

subsection \<open>filter\<close>

text \<open>
  \<^verbatim>\<open>
  if (iterable) {
    const result = [];
    each(iterable, (obj) => {
      if (predicate && predicate.call(context, obj)) { result.push(obj); }
    });
    return result;
  }
  \<close>
  The arrow function closes over \<^verbatim>\<open>result\<close>: its state is the array built so far
  together with the state the predicate works on.
\<close>

definition arg0 :: "val list \<Rightarrow> val" where
  "arg0 args = (case args of [] \<Rightarrow> Undefined | a # _ \<Rightarrow> a)"

definition filter_cb :: "'s callee \<Rightarrow> val \<Rightarrow> (val option list \<times> 's) fn" where
  "filter_cb predicate context this args st =
     (case st of (result, s) \<Rightarrow>
        (if callee_truthy predicate then
           (case invoke predicate context [arg0 args] s of
              (Inl e, s') \<Rightarrow> (Inl e, (result, s'))
            | (Inr v, s') \<Rightarrow>
                (Inr Undefined, (if truthy v then result @ [Some (arg0 args)] else result, s')))
         else (Inr Undefined, (result, s))))"

definition filter_js :: "val \<Rightarrow> 's callee \<Rightarrow> val \<Rightarrow> 's \<Rightarrow> (error + ret) \<times> 's" where
  "filter_js iterable predicate context s =
     (if truthy iterable then
        (case each iterable (Fn (filter_cb predicate context)) Undefined ([], s) of
           (Inl e, (result, s')) \<Rightarrow> (Inl e, s')
         | (Inr _, (result, s')) \<Rightarrow> (Inr (NewArray result), s'))
      else (Inr (Value Undefined), s))"

subsection \<open>keys\<close>

text \<open>\<^verbatim>\<open>for (const key in obj) if (has(obj, key)) objKeys.push(key);\<close>\<close>

fun keys_loop :: "val \<Rightarrow> string list \<Rightarrow> string list \<Rightarrow> error + string list" where
  "keys_loop obj [] objKeys = Inr objKeys"
| "keys_loop obj (key # rest) objKeys =
     (case has obj key of
        Inl e \<Rightarrow> Inl e
      | Inr b \<Rightarrow> keys_loop obj rest (if b then objKeys @ [key] else objKeys))"

definition keys :: "val \<Rightarrow> error + string list" where
  "keys obj = keys_loop obj (map fst (ownEnumerable obj)) []"

subsection \<open>map\<close>

text \<open>
  \<^verbatim>\<open>
  if (obj) {
    const result = [];
    const objKeys = !isArrayLike(obj) && keys(obj);
    const length = (objKeys || obj).length;
    for (let index = 0; index < length; index++) {
      const currentKey = objKeys ? objKeys[index] : index;
      if (predicate) {
        result[index] = predicate.call(context, obj[currentKey], currentKey);
      }
    }
    return result;
  }
  \<close>
  \<^verbatim>\<open>objKeys\<close> is \<^verbatim>\<open>false\<close> (here \<open>None\<close>) for an array-like value and the array of the
  own keys otherwise. An assignment past the end of \<^verbatim>\<open>result\<close> lengthens it.
\<close>

definition setIndex :: "val option list \<Rightarrow> nat \<Rightarrow> val \<Rightarrow> val option list" where
  "setIndex xs i v =
     (if i < length xs then xs[i := Some v] else xs @ replicate (i - length xs) None @ [Some v])"

function map_loop :: "val \<Rightarrow> string list option \<Rightarrow> nat \<Rightarrow> 's callee \<Rightarrow> val \<Rightarrow> nat
    \<Rightarrow> val option list \<Rightarrow> 's \<Rightarrow> (error + val option list) \<times> 's" where
  "map_loop obj objKeys len predicate context index result s =
     (if index < len then
        (if callee_truthy predicate then
           (case (case objKeys of
                    Some ks \<Rightarrow> invoke predicate context
                                 [getProp (ownEnumerable obj) (ks ! index), Str (ks ! index)] s
                  | None \<Rightarrow> invoke predicate context
                              [slot_val (arraySlots obj ! index), Num (int index)] s) of
              (Inl e, s') \<Rightarrow> (Inl e, s')
            | (Inr v, s') \<Rightarrow>
                map_loop obj objKeys len predicate context (Suc index) (setIndex result index v) s')
         else map_loop obj objKeys len predicate context (Suc index) result s)
      else (Inr result, s))"
  by pat_completeness auto
termination
  by (relation "measure (\<lambda>(obj, objKeys, len, predicate, context, index, result, s). len - index)")
     auto

declare map_loop.simps [simp del]

definition map_js :: "val \<Rightarrow> 's callee \<Rightarrow> val \<Rightarrow> 's \<Rightarrow> (error + ret) \<times> 's" where
  "map_js obj predicate context s =
     (if truthy obj then
        (case isArrayLike obj of
           Inl e \<Rightarrow> (Inl e, s)
         | Inr al \<Rightarrow>
             (case (if al then Inr None else map_sum id Some (keys obj)) of
                Inl e \<Rightarrow> (Inl e, s)
              | Inr objKeys \<Rightarrow>
                  (let len = (case objKeys of
                                Some ks \<Rightarrow> length ks
                              | None \<Rightarrow> length (arraySlots obj))
                   in case map_loop obj objKeys len predicate context 0 [] s of
                        (Inl e, s') \<Rightarrow> (Inl e, s')
                      | (Inr result, s') \<Rightarrow> (Inr (NewArray result), s'))))
      else (Inr (Value Undefined), s))"


subsection \<open>find, findIndex, some\<close>

text \<open>
  The three share their shape:
  \<^verbatim>\<open>
  if (iterable) {
    let source;
    if (isArrayLike(iterable)) { source = iterable; } else { source = [iterable]; }
    let result;
    for (let index = 0; index < source.length; index++) {
      if (predicate && predicate.call(context, source[index])) {
        result = source[index];    // findIndex: result = index;  some: result = true;
        break;
      }
    }
    return result;
  }
  \<close>
  \<^verbatim>\<open>source\<close> is kept as its list of slots.
\<close>

definition sourceOf :: "val \<Rightarrow> bool \<Rightarrow> val option list" where
  "sourceOf iterable al = (if al then arraySlots iterable else [Some iterable])"

function find_loop :: "val option list \<Rightarrow> 's callee \<Rightarrow> val \<Rightarrow> nat \<Rightarrow> 's
    \<Rightarrow> (error + val) \<times> 's" where
  "find_loop source predicate context index s =
     (if index < length source then
        (if callee_truthy predicate then
           (case invoke predicate context [slot_val (source ! index)] s of
              (Inl e, s') \<Rightarrow> (Inl e, s')
            | (Inr v, s') \<Rightarrow>
                (if truthy v then (Inr (slot_val (source ! index)), s')
                 else find_loop source predicate context (Suc index) s'))
         else find_loop source predicate context (Suc index) s)
      else (Inr Undefined, s))"
  by pat_completeness auto
termination
  by (relation "measure (\<lambda>(source, predicate, context, index, s). length source - index)") auto

declare find_loop.simps [simp del]

definition find_js :: "val \<Rightarrow> 's callee \<Rightarrow> val \<Rightarrow> 's \<Rightarrow> (error + val) \<times> 's" where
  "find_js iterable predicate context s =
     (if truthy iterable then
        (case isArrayLike iterable of
           Inl e \<Rightarrow> (Inl e, s)
         | Inr al \<Rightarrow> find_loop (sourceOf iterable al) predicate context 0 s)
      else (Inr Undefined, s))"

function findIndex_loop :: "val option list \<Rightarrow> 's callee \<Rightarrow> val \<Rightarrow> nat \<Rightarrow> 's
    \<Rightarrow> (error + val) \<times> 's" where
  "findIndex_loop source predicate context index s =
     (if index < length source then
        (if callee_truthy predicate then
           (case invoke predicate context [slot_val (source ! index)] s of
              (Inl e, s') \<Rightarrow> (Inl e, s')
            | (Inr v, s') \<Rightarrow>
                (if truthy v then (Inr (Num (int index)), s')
                 else findIndex_loop source predicate context (Suc index) s'))
         else findIndex_loop source predicate context (Suc index) s)
      else (Inr Undefined, s))"
  by pat_completeness auto
termination
  by (relation "measure (\<lambda>(source, predicate, context, index, s). length source - index)") auto

declare findIndex_loop.simps [simp del]

definition findIndex :: "val \<Rightarrow> 's callee \<Rightarrow> val \<Rightarrow> 's \<Rightarrow> (error + val) \<times> 's" where
  "findIndex iterable predicate context s =
     (if truthy iterable then
        (case isArrayLike iterable of
           Inl e \<Rightarrow> (Inl e, s)
         | Inr al \<Rightarrow> findIndex_loop (sourceOf iterable al) predicate context 0 s)
      else (Inr Undefined, s))"

function some_loop :: "val option list \<Rightarrow> 's callee \<Rightarrow> val \<Rightarrow> nat \<Rightarrow> 's
    \<Rightarrow> (error + val) \<times> 's" where
  "some_loop source predicate context index s =
     (if index < length source then
        (if callee_truthy predicate then
           (case invoke predicate context [slot_val (source ! index)] s of
              (Inl e, s') \<Rightarrow> (Inl e, s')
            | (Inr v, s') \<Rightarrow>
                (if truthy v then (Inr (Bool True), s')
                 else some_loop source predicate context (Suc index) s'))
         else some_loop source predicate context (Suc index) s)
      else (Inr Undefined, s))"
  by pat_completeness auto
termination
  by (relation "measure (\<lambda>(source, predicate, context, index, s). length source - index)") auto

declare some_loop.simps [simp del]

definition some :: "val \<Rightarrow> 's callee \<Rightarrow> val \<Rightarrow> 's \<Rightarrow> (error + val) \<times> 's" where
  "some iterable predicate context s =
     (if truthy iterable then
        (case isArrayLike iterable of
           Inl e \<Rightarrow> (Inl e, s)
         | Inr al \<Rightarrow> some_loop (sourceOf iterable al) predicate context 0 s)
      else (Inr Undefined, s))"

subsection \<open>isEmpty, first, last, size\<close>


text \<open>
  \<^verbatim>\<open>
  if (iterable) {
    if (isArrayLike(iterable)) {
      if (iterable.length > 0) { return iterable[0]; }   // last: iterable[iterable.length - 1]
    } else {
      return iterable;
    }
  }
  \<close>
\<close>

definition first :: "val \<Rightarrow> error + val" where
  "first iterable =
     (if truthy iterable then
        (case isArrayLike iterable of
           Inl e \<Rightarrow> Inl e
         | Inr True \<Rightarrow>
             (if length (arraySlots iterable) > 0 then Inr (slot_val (arraySlots iterable ! 0))
              else Inr Undefined)
         | Inr False \<Rightarrow> Inr iterable)
      else Inr Undefined)"

definition last_js :: "val \<Rightarrow> error + val" where
  "last_js iterable =
     (if truthy iterable then
        (case isArrayLike iterable of
           Inl e \<Rightarrow> Inl e
         | Inr True \<Rightarrow>
             (if length (arraySlots iterable) > 0
              then Inr (slot_val (arraySlots iterable ! (length (arraySlots iterable) - 1)))
              else Inr Undefined)
         | Inr False \<Rightarrow> Inr iterable)
      else Inr Undefined)"

text \<open>
  \<^verbatim>\<open>
  if (iterable) {
    let source;
    if (isArrayLike(iterable)) { source = iterable; } else { source = [iterable]; }
    return source.length;
  }
  return 0;
  \<close>
\<close>

definition size_js :: "val \<Rightarrow> error + val" where
  "size_js iterable =
     (if truthy iterable then
        (case isArrayLike iterable of
           Inl e \<Rightarrow> Inl e
         | Inr al \<Rightarrow> Inr (Num (int (length (sourceOf iterable al)))))
      else Inr (Num 0))"

subsection \<open>union\<close>

text \<open>\<^verbatim>\<open>Array.prototype.indexOf\<close>: the first filled slot strictly equal to the value, or -1.\<close>

fun indexOf_from :: "nat \<Rightarrow> val option list \<Rightarrow> val \<Rightarrow> int" where
  "indexOf_from i [] v = - 1"
| "indexOf_from i (None # xs) v = indexOf_from (Suc i) xs v"
| "indexOf_from i (Some x # xs) v = (if strict_eq x v then int i else indexOf_from (Suc i) xs v)"

definition indexOf :: "val option list \<Rightarrow> val \<Rightarrow> int" where
  "indexOf xs v = indexOf_from 0 xs v"

text \<open>
  \<^verbatim>\<open>
  if (arrs) {
    const result = [];
    arrs.forEach((arr) => {
      if (arr) {
        each(arr, (obj) => {
          if (result.indexOf(obj) < 0) { result.push(obj); }
        });
      }
    });
    return result;
  }
  \<close>
  \<^verbatim>\<open>arrs\<close> is the array of the arguments, which is always truthy.
\<close>

definition union_cb :: "(val option list) fn" where
  "union_cb this args result =
     (Inr Undefined,
      if indexOf result (arg0 args) < 0 then result @ [Some (arg0 args)] else result)"

definition union_js :: "val list \<Rightarrow> error + ret" where
  "union_js arrs =
     (case forEach (map Some arrs)
             (\<lambda>arr result. if truthy arr then each arr (Fn union_cb) Undefined result
                           else (Inr Undefined, result)) [] of
        (Inl e, result) \<Rightarrow> Inl e
      | (Inr _, result) \<Rightarrow> Inr (NewArray result))"

subsection \<open>uniqueId\<close>

text \<open>
  \<^verbatim>\<open>
  let idCounter = 0;
  export function uniqueId(prefix) {
    const id = ++idCounter + '';
    return prefix ? prefix + id : id;
  }
  \<close>
  The counter is the state. It is a double: from \<open>2\<^sup>5\<^sup>3\<close> on, adding one rounds back to
  the same number. The prefix is a string, or left out.
\<close>

definition increment :: "nat \<Rightarrow> nat" where
  "increment c = (if c < 2 ^ 53 then c + 1 else c)"

definition idCounter_init :: nat where
  "idCounter_init = 0"

definition uniqueId :: "string option \<Rightarrow> nat \<Rightarrow> string \<times> nat" where
  "uniqueId prefix idCounter =
     (let idCounter' = increment idCounter;
          id = string_of_nat idCounter'
      in (case prefix of
            None \<Rightarrow> id
          | Some p \<Rightarrow> if p \<noteq> [] then p @ id else id,
          idCounter'))"

text \<open>A run of the process: the calls in order, each on the counter the one before left.\<close>

fun uniqueId_calls :: "string option list \<Rightarrow> nat \<Rightarrow> string list" where
  "uniqueId_calls [] idCounter = []"
| "uniqueId_calls (prefix # rest) idCounter =
     fst (uniqueId prefix idCounter) # uniqueId_calls rest (snd (uniqueId prefix idCounter))"


subsection \<open>omit\<close>

text \<open>
  \<^verbatim>\<open>String.prototype.indexOf\<close>: the first position at which the key occurs as a substring,
  or -1.
\<close>

fun strIndexOf_from :: "nat \<Rightarrow> string \<Rightarrow> string \<Rightarrow> int" where
  "strIndexOf_from i [] key = (if key = [] then int i else - 1)"
| "strIndexOf_from i (c # cs) key =
     (if take (length key) (c # cs) = key then int i else strIndexOf_from (Suc i) cs key)"

text \<open>
  \<^verbatim>\<open>fields.indexOf(key)\<close>: the method of an array or of a string; any other truthy value
  has no such method and the call is a TypeError.
\<close>

fun fieldsIndexOf :: "val \<Rightarrow> string \<Rightarrow> error + int" where
  "fieldsIndexOf (Arr r xs) key = Inr (indexOf xs (Str key))"
| "fieldsIndexOf (Str s) key = Inr (strIndexOf_from 0 s key)"
| "fieldsIndexOf v key = Inl TypeError"

text \<open>
  \<^verbatim>\<open>obj.hasOwnProperty(key)\<close> looks the method up on the object itself: a plain object
  with an own property of that name shadows the inherited method by a value that cannot be
  called. On every key the loop visits, the inherited method answers true.
\<close>

fun hasOwnProperty_callable :: "val \<Rightarrow> bool" where
  "hasOwnProperty_callable (Obj r ps) = (''hasOwnProperty'' \<notin> fst ` set ps)"
| "hasOwnProperty_callable v = True"

text \<open>
  The keys that are array indices: the decimal numerals, without leading zeros, of the
  numbers below \<open>2\<^sup>3\<^sup>2 - 1\<close>. An object enumerates them first, in ascending order, and
  its other keys after them in the order of their creation.
\<close>

definition digits_value :: "string \<Rightarrow> nat" where
  "digits_value key = foldl (\<lambda>n c. 10 * n + (of_char c - 48)) 0 key"

definition key_index :: "string \<Rightarrow> nat option" where
  "key_index key =
     (if string_of_nat (digits_value key) = key \<and> digits_value key < 4294967295
      then Some (digits_value key) else None)"

text \<open>
  Writing a data property of an object: an existing property keeps its place; a new one is
  put where the enumeration will find it, an array index among the indices and any other key
  at the end.
\<close>

fun updateProp :: "(string \<times> val) list \<Rightarrow> string \<Rightarrow> val \<Rightarrow> (string \<times> val) list" where
  "updateProp [] key v = []"
| "updateProp ((k, w) # ps) key v =
     (if k = key then (k, v) # ps else (k, w) # updateProp ps key v)"

fun insertIndexed :: "(string \<times> val) list \<Rightarrow> nat \<Rightarrow> string \<Rightarrow> val \<Rightarrow> (string \<times> val) list" where
  "insertIndexed [] n key v = [(key, v)]"
| "insertIndexed ((k, w) # ps) n key v =
     (case key_index k of
        Some m \<Rightarrow> if m < n then (k, w) # insertIndexed ps n key v else (key, v) # (k, w) # ps
      | None \<Rightarrow> (key, v) # (k, w) # ps)"

definition setProp :: "(string \<times> val) list \<Rightarrow> string \<Rightarrow> val \<Rightarrow> (string \<times> val) list" where
  "setProp ps key v =
     (if key \<in> fst ` set ps then updateProp ps key v
      else case key_index key of
             None \<Rightarrow> ps @ [(key, v)]
           | Some n \<Rightarrow> insertIndexed ps n key v)"

text \<open>
  \<^verbatim>\<open>result[key] = v\<close> on the object that omit builds. The key \<^verbatim>\<open>__proto__\<close> is special:
  unless the object has it as an own property, the assignment reaches the setter inherited
  from \<^verbatim>\<open>Object.prototype\<close>, which creates no property: it does nothing for a primitive
  value, and makes null or an object the prototype. The state is the prototype so set, if
  any, and the own properties. Once the prototype is null, or is an object with an own
  \<^verbatim>\<open>__proto__\<close> property, the setter is out of reach and the key is an ordinary one.
\<close>

fun is_object :: "val \<Rightarrow> bool" where
  "is_object (Arr r xs) = True"
| "is_object (Obj r ps) = True"
| "is_object v = False"

fun setter_in_reach :: "val option \<Rightarrow> bool" where
  "setter_in_reach None = True"
| "setter_in_reach (Some (Obj r ps)) = (''__proto__'' \<notin> fst ` set ps)"
| "setter_in_reach (Some Null) = False"
| "setter_in_reach (Some v) = True"

definition assignFresh :: "val option \<times> (string \<times> val) list \<Rightarrow> string \<Rightarrow> val
    \<Rightarrow> val option \<times> (string \<times> val) list" where
  "assignFresh st key v =
     (case st of (proto, ps) \<Rightarrow>
        if key = ''__proto__'' \<and> ''__proto__'' \<notin> fst ` set ps \<and> setter_in_reach proto
        then (if v = Null \<or> is_object v then (Some v, ps) else (proto, ps))
        else (proto, setProp ps key v))"

text \<open>
  \<^verbatim>\<open>
  if (obj) {
    const result = {};
    for (const key in obj) {
      if (obj.hasOwnProperty(key) && (!fields || fields.indexOf(key) < 0)) {
        result[key] = obj[key];
      }
    }
    return result;
  }
  \<close>
\<close>

fun omit_loop :: "val \<Rightarrow> val \<Rightarrow> string list \<Rightarrow> val option \<times> (string \<times> val) list
    \<Rightarrow> error + val option \<times> (string \<times> val) list" where
  "omit_loop obj fields [] result = Inr result"
| "omit_loop obj fields (key # rest) result =
     (if \<not> hasOwnProperty_callable obj then Inl TypeError
      else if \<not> truthy fields
        then omit_loop obj fields rest
               (assignFresh result key (getProp (ownEnumerable obj) key))
      else (case fieldsIndexOf fields key of
              Inl e \<Rightarrow> Inl e
            | Inr i \<Rightarrow>
                if i < 0
                then omit_loop obj fields rest
                       (assignFresh result key (getProp (ownEnumerable obj) key))
                else omit_loop obj fields rest result))"

definition omit :: "val \<Rightarrow> val \<Rightarrow> error + ret" where
  "omit obj fields =
     (if truthy obj then
        (case omit_loop obj fields (map fst (ownEnumerable obj)) (None, []) of
           Inl e \<Rightarrow> Inl e
         | Inr (None, result) \<Rightarrow> Inr (NewObject result)
         | Inr (Some proto, result) \<Rightarrow> Inr (NewObjectWithProto proto result))
      else Inr (Value Undefined))"

subsection \<open>extend\<close>

text \<open>
  extend writes into its first argument and returns it. What comes back is the target as
  the call leaves it: the value; beside it the named properties that an array has received,
  which an array value of this model has no place for; and the prototype that an assignment
  to \<^verbatim>\<open>__proto__\<close> has given it, if any (\<open>None\<close>: the prototype it was created with).
  Objects are extensible and their properties writable.
\<close>

datatype target = Target val "(string \<times> val) list" "val option"

fun target_base :: "target \<Rightarrow> val" where
  "target_base (Target v named proto) = v"

text \<open>The own enumerable properties, in \<^verbatim>\<open>for ... in\<close> order.\<close>

fun target_enumerable :: "target \<Rightarrow> (string \<times> val) list" where
  "target_enumerable (Target v named proto) = ownEnumerable v @ named"

text \<open>\<^verbatim>\<open>obj.hasOwnProperty(key)\<close>, where the method can be called.\<close>

fun target_has :: "target \<Rightarrow> string \<Rightarrow> bool" where
  "target_has (Target v named proto) key =
     (hasOwnProperty_call v key = Inr True \<or> key \<in> fst ` set named)"

text \<open>
  \<^verbatim>\<open>for (const key in obj)\<close> visits the own enumerable keys, then the enumerable keys of
  the prototype that no own property shadows. The prototypes that objects are created with
  have no enumerable property.
\<close>

fun target_keys :: "target \<Rightarrow> string list" where
  "target_keys (Target v named proto) =
     map fst (ownEnumerable v @ named)
     @ (case proto of
          None \<Rightarrow> []
        | Some p \<Rightarrow> filter (\<lambda>key. \<not> target_has (Target v named proto) key)
                           (map fst (ownEnumerable p)))"

text \<open>
  Whether \<^verbatim>\<open>obj.hasOwnProperty\<close> is the inherited method: no own property of that name,
  and a prototype that is not null and has no own property of that name either.
\<close>

fun target_callable :: "target \<Rightarrow> bool" where
  "target_callable (Target v named proto) =
     (hasOwnProperty_callable v \<and> ''hasOwnProperty'' \<notin> fst ` set named
      \<and> (case proto of None \<Rightarrow> True | Some p \<Rightarrow> p \<noteq> Null \<and> hasOwnProperty_callable p))"

text \<open>
  \<^verbatim>\<open>array.length = v\<close>: the value is converted to a number, which must be an integer
  from 0 to \<open>2\<^sup>3\<^sup>2 - 1\<close>, or the assignment is a RangeError. A plain object converts
  through the inherited \<^verbatim>\<open>toString\<close> to a string that is no number, or fails to convert,
  with a TypeError, when it shadows that method. The empty string is 0 and a decimal
  numeral without leading zeros is its number; an empty array converts through the empty
  string. How any other string, or an array with elements through its string, reads as a
  number is outside the model: \<open>None\<close>.
\<close>

fun array_length_of :: "val \<Rightarrow> (error + nat) option" where
  "array_length_of (Num n) =
     (if 0 \<le> n \<and> n < 4294967296 then Some (Inr (nat n)) else Some (Inl RangeError))"
| "array_length_of NaN = Some (Inl RangeError)"
| "array_length_of Undefined = Some (Inl RangeError)"
| "array_length_of Null = Some (Inr 0)"
| "array_length_of (Bool b) = Some (Inr (if b then 1 else 0))"
| "array_length_of (Obj r ps) =
     Some (Inl (if ''toString'' \<in> fst ` set ps then TypeError else RangeError))"
| "array_length_of (Str s) =
     (if s = [] then Some (Inr 0)
      else if string_of_nat (digits_value s) = s
        then (if digits_value s < 4294967296 then Some (Inr (digits_value s))
              else Some (Inl RangeError))
      else None)"
| "array_length_of (Arr r xs) = (if xs = [] then Some (Inr 0) else None)"

definition set_length :: "val option list \<Rightarrow> nat \<Rightarrow> val option list" where
  "set_length xs n = (if n \<le> length xs then take n xs else xs @ replicate (n - length xs) None)"

text \<open>
  The inherited \<^verbatim>\<open>__proto__\<close> setter on an existing object: nothing happens for a primitive
  value other than null; the object itself as its own prototype is refused, with a
  TypeError; null or another object becomes the prototype.
\<close>

fun proto_setter :: "target \<Rightarrow> val \<Rightarrow> error + target" where
  "proto_setter (Target base named proto) v =
     (if v = Null then Inr (Target base named (Some Null))
      else if is_object v
        then (if strict_eq v base then Inl TypeError else Inr (Target base named (Some v)))
      else Inr (Target base named proto))"

text \<open>
  \<^verbatim>\<open>obj1[key] = v\<close>. The key \<^verbatim>\<open>__proto__\<close> reaches the inherited setter, unless the target
  has an own property of that name or its prototype has put the setter out of reach; then it
  is a key like any other. On a plain object a key writes a data property. On an array
  \<^verbatim>\<open>length\<close> sets the length, an index key fills a slot, and any other key is a named
  property. The module is strict-mode code: writing a property of a primitive throws, except
  that \<^verbatim>\<open>__proto__\<close> reaches the setter, which ignores a primitive.
\<close>

fun assignProp :: "target \<Rightarrow> string \<Rightarrow> val \<Rightarrow> (error + target) option" where
  "assignProp (Target (Obj r ps) named proto) key v =
     (if key = ''__proto__'' \<and> ''__proto__'' \<notin> fst ` set ps \<and> setter_in_reach proto
      then Some (proto_setter (Target (Obj r ps) named proto) v)
      else Some (Inr (Target (Obj r (setProp ps key v)) named proto)))"
| "assignProp (Target (Arr r xs) named proto) key v =
     (if key = ''__proto__'' \<and> ''__proto__'' \<notin> fst ` set named \<and> setter_in_reach proto
      then Some (proto_setter (Target (Arr r xs) named proto) v)
      else if key = ''length'' then
        (case array_length_of v of
           None \<Rightarrow> None
         | Some (Inl e) \<Rightarrow> Some (Inl e)
         | Some (Inr n) \<Rightarrow> Some (Inr (Target (Arr r (set_length xs n)) named proto)))
      else case key_index key of
             Some i \<Rightarrow> Some (Inr (Target (Arr r (setIndex xs i v)) named proto))
           | None \<Rightarrow> Some (Inr (Target (Arr r xs) (setProp named key v) proto)))"
| "assignProp (Target Undefined named proto) key v = Some (Inl TypeError)"
| "assignProp (Target Null named proto) key v = Some (Inl TypeError)"
| "assignProp (Target primitive named proto) key v =
     (if key = ''__proto__'' then Some (Inr (Target primitive named proto))
      else Some (Inl TypeError))"

text \<open>
  \<^verbatim>\<open>
  if (obj1 && objs) {
    objs.forEach((obj) => {
      if (obj) {
        for (const key in obj) {
          if (obj.hasOwnProperty(key)) { obj1[key] = obj[key]; }
        }
      }
    });
  }
  return obj1;
  \<close>
  \<^verbatim>\<open>objs\<close> is the array of the rest arguments, always truthy. A source that is the target
  itself is read in the state that the target is in.
\<close>

definition source_view :: "target \<Rightarrow> val \<Rightarrow> target" where
  "source_view tgt obj = (if strict_eq obj (target_base tgt) then tgt else Target obj [] None)"

fun extend_props :: "target \<Rightarrow> val \<Rightarrow> string list \<Rightarrow> (error + target) option" where
  "extend_props tgt obj [] = Some (Inr tgt)"
| "extend_props tgt obj (key # rest) =
     (if \<not> target_callable (source_view tgt obj) then Some (Inl TypeError)
      else if \<not> target_has (source_view tgt obj) key then extend_props tgt obj rest
      else case assignProp tgt key (getProp (target_enumerable (source_view tgt obj)) key) of
             None \<Rightarrow> None
           | Some (Inl e) \<Rightarrow> Some (Inl e)
           | Some (Inr tgt') \<Rightarrow> extend_props tgt' obj rest)"

fun extend_sources :: "target \<Rightarrow> val list \<Rightarrow> (error + target) option" where
  "extend_sources tgt [] = Some (Inr tgt)"
| "extend_sources tgt (obj # objs) =
     (if truthy obj then
        (case extend_props tgt obj (target_keys (source_view tgt obj)) of
           None \<Rightarrow> None
         | Some (Inl e) \<Rightarrow> Some (Inl e)
         | Some (Inr tgt') \<Rightarrow> extend_sources tgt' objs)
      else extend_sources tgt objs)"

definition extend :: "val \<Rightarrow> val list \<Rightarrow> (error + target) option" where
  "extend obj1 objs =
     (if truthy obj1 then extend_sources (Target obj1 [] None) objs
      else Some (Inr (Target obj1 [] None)))"

subsection \<open>flatten\<close>

text \<open>
  The callback that \<open>each\<close> is given meets only members of an array, or the value itself
  when that is not an array.
\<close>

lemma each_cong [fundef_cong]:
  assumes "obj = obj'" and "context = context'" and "s = s'"
    and "\<And>x t. truthy obj' \<Longrightarrow>
           (\<exists>r xs. obj' = Arr r xs \<and> Some x \<in> set xs) \<or> (\<not> isArray obj' \<and> x = obj') \<Longrightarrow>
           f context' [x] t = g context' [x] t"
  shows "each obj (Fn f) context s = each obj' (Fn g) context' s'"
proof -
  have loop: "forEach xs (\<lambda>elm. invoke (Fn f) context' [elm]) t
      = forEach xs (\<lambda>elm. invoke (Fn g) context' [elm]) t"
    if "\<forall>x. Some x \<in> set xs \<longrightarrow> (\<forall>t. f context' [x] t = g context' [x] t)" for xs t
    using that
    by (induction xs "\<lambda>elm. invoke (Fn f) context' [elm]" t rule: forEach.induct)
       (auto split: prod.splits sum.splits)
  show ?thesis
    unfolding each_def using assms loop
    by (auto simp: isArrayLike_def split: sum.splits bool.splits val.splits prod.splits)
qed

text \<open>
  \<^verbatim>\<open>
  function flattenInternal(output, element) {
    if (element) {
      each(element, (obj) => {
        if (Array.isArray(obj)) { flattenInternal(output, obj); } else { output.push(obj); }
      });
    }
  }
  \<close>
\<close>

function flattenInternal :: "val option list \<Rightarrow> val \<Rightarrow> (error + val) \<times> val option list" where
  "flattenInternal output element =
     (if truthy element then
        each element
          (Fn (\<lambda>this args out.
                 if isArray (arg0 args) then flattenInternal out (arg0 args)
                 else (Inr Undefined, out @ [Some (arg0 args)])))
          Undefined output
      else (Inr Undefined, output))"
  by pat_completeness auto
termination
proof (relation "measure (\<lambda>(out, element). size element)", goal_cases)
  case 1
  show ?case by simp
next
  case (2 out element x t)
  from 2(3,4) obtain r xs where el: "element = Arr r xs" and mem: "Some x \<in> set xs"
    by (auto simp: arg0_def)
  have "size x < size_list (size_option size) xs"
    by (rule size_list_estimation [OF mem]) simp
  then show ?case
    by (simp add: el arg0_def)
qed

declare flattenInternal.simps [simp del]

text \<open>
  \<^verbatim>\<open>
  export function flatten(...arrays) {
    if (arrays) {
      const result = [];
      flattenInternal(result, arrays);
      return result;
    }
  }
  \<close>
  \<^verbatim>\<open>arrays\<close> is the fresh array of the arguments; nothing compares its reference.
\<close>

definition flatten :: "val list \<Rightarrow> error + ret" where
  "flatten arrays =
     (case flattenInternal [] (Arr 0 (map Some arrays)) of
        (Inl e, result) \<Rightarrow> Inl e
      | (Inr _, result) \<Rightarrow> Inr (NewArray result))"


section \<open>Observing a run\<close>

text \<open>
  A predicate that keeps a record of its calls: it answers \<open>q this args\<close> and appends the
  call, its \<^verbatim>\<open>this\<close> and its arguments, to the record. What a helper called, with what
  and in which order is then read off the final record.
\<close>

type_synonym calls = "(val \<times> val list) list"

definition logged :: "(val \<Rightarrow> val list \<Rightarrow> val) \<Rightarrow> calls fn" where
  "logged q this args calls = (Inr (q this args), calls @ [(this, args)])"

text \<open>One call per value, each with the value as its only argument.\<close>

definition calls_on :: "val \<Rightarrow> val list \<Rightarrow> calls" where
  "calls_on context xs = map (\<lambda>x. (context, [x])) xs"


text \<open>How many values come before the first one the test accepts.\<close>

definition misses :: "(val \<Rightarrow> val list \<Rightarrow> val) \<Rightarrow> val \<Rightarrow> val list \<Rightarrow> nat" where
  "misses q context xs = length (takeWhile (\<lambda>x. \<not> truthy (q context [x])) xs)"

text \<open>\<^verbatim>\<open>() => true\<close>, for concrete runs.\<close>

definition accept_all :: "val \<Rightarrow> val list \<Rightarrow> val" where
  "accept_all this args = Bool True"



text \<open>
  The flattening the specification describes, stated on its own: an element that is a true
  array is expanded in place, depth first and left to right, to any depth; every other value
  is kept as it is. The holes of a sparse array contribute nothing.
\<close>

fun flat :: "val \<Rightarrow> val list" where
  "flat (Arr r xs) = concat (map (\<lambda>x. case x of None \<Rightarrow> [] | Some v \<Rightarrow> flat v) xs)"
| "flat v = [v]"

text \<open>The filled slots of an array, in order: what \<^verbatim>\<open>forEach\<close> visits.\<close>

definition filled :: "val option list \<Rightarrow> val list" where
  "filled xs = concat (map (\<lambda>x. case x of None \<Rightarrow> [] | Some v \<Rightarrow> [v]) xs)"

text \<open>The text a prefix puts in front of the id: none when it is left out (or empty).\<close>

definition prefix_text :: "string option \<Rightarrow> string" where
  "prefix_text prefix = (case prefix of None \<Rightarrow> [] | Some p \<Rightarrow> p)"


text \<open>
  The collections each can walk: falsy ones (nothing to do), true arrays (which have
  \<^verbatim>\<open>forEach\<close>) and values that are not array-like (taken as one element).
\<close>

definition forEach_able :: "val \<Rightarrow> bool" where
  "forEach_able obj = (\<not> truthy obj \<or> isArray obj \<or> isArrayLike obj = Inr False)"


text \<open>
  Objects whose keys are ordinary names: no array index among them, and no
  \<^verbatim>\<open>__proto__\<close>.
\<close>

definition string_keyed :: "(string \<times> val) list \<Rightarrow> bool" where
  "string_keyed ps = (\<forall>k\<in>fst ` set ps. key_index k = None \<and> k \<noteq> ''__proto__'')"




text \<open>
  What union looks at, and what the specification asks of it. An argument offers its filled
  slots when it is a true array, itself when it is any other truthy value, nothing when it
  is falsy. Of the values offered, in order, the first occurrences are those that no
  earlier value is strictly equal to.
\<close>

definition candidates :: "val \<Rightarrow> val list" where
  "candidates arr =
     (if \<not> truthy arr then []
      else case arr of Arr r xs \<Rightarrow> filled xs | _ \<Rightarrow> [arr])"

fun first_occurrences :: "val list \<Rightarrow> val list \<Rightarrow> val list" where
  "first_occurrences seen [] = []"
| "first_occurrences seen (x # xs) =
     (if \<exists>y\<in>set seen. strict_eq y x then first_occurrences (seen @ [x]) xs
      else x # first_occurrences (seen @ [x]) xs)"

text \<open>One turn of the callback that union hands to each.\<close>

definition union_step :: "val option list \<Rightarrow> val \<Rightarrow> val option list" where
  "union_step result x = (if indexOf result x < 0 then result @ [Some x] else result)"

section \<open>Falsy collections\<close>

text \<open>
  C1. Each of each, filter, map, find, findIndex, some, first and last, given a collection
  that is undefined, null or otherwise falsy, returns undefined; it does not call the
  predicate (whatever the predicate is, the state it works on is left as it was) and returns
  no container. size returns 0 on such a collection.
\<close>

theorem falsy_collection_is_noop:
  assumes "\<not> truthy obj"
  shows "each obj predicate context s = (Inr Undefined, s)
       \<and> filter_js obj predicate context s = (Inr (Value Undefined), s)
       \<and> map_js obj predicate context s = (Inr (Value Undefined), s)
       \<and> find_js obj predicate context s = (Inr Undefined, s)
       \<and> findIndex obj predicate context s = (Inr Undefined, s)
       \<and> some obj predicate context s = (Inr Undefined, s)
       \<and> first obj = Inr Undefined
       \<and> last_js obj = Inr Undefined
       \<and> size_js obj = Inr (Num 0)"
  using assms
  by (simp add: each_def filter_js_def map_js_def find_js_def findIndex_def some_def first_def
      last_js_def size_js_def)

theorem falsy_collection_is_noop_witness:
  "\<not> truthy Null
   \<and> each Null (Fn (\<lambda>this args n. (Inr (Bool True), Suc n))) Undefined (0::nat)
       = (Inr Undefined, 0)
   \<and> filter_js Null (Fn (\<lambda>this args n. (Inr (Bool True), Suc n))) Undefined (0::nat)
       = (Inr (Value Undefined), 0)
   \<and> map_js Null (Fn (\<lambda>this args n. (Inr (Bool True), Suc n))) Undefined (0::nat)
       = (Inr (Value Undefined), 0)
   \<and> size_js Null = Inr (Num 0)"
  using falsy_collection_is_noop
    [of Null "Fn (\<lambda>this args n. (Inr (Bool True), Suc n))" Undefined "0::nat"]
  by simp


section \<open>Scanning for the first match\<close>

lemma misses_Nil [simp]: "misses q ctx [] = 0"
  by (simp add: misses_def)

lemma misses_Cons [simp]:
  "misses q ctx (x # xs) = (if truthy (q ctx [x]) then 0 else Suc (misses q ctx xs))"
  by (simp add: misses_def)

lemma calls_on_simps [simp]:
  "calls_on ctx [] = []"
  "calls_on ctx (x # xs) = (ctx, [x]) # calls_on ctx xs"
  by (simp_all add: calls_on_def)













section \<open>find and findIndex\<close>











section \<open>map\<close>




lemma setIndex_end: "setIndex xs (length xs) v = xs @ [Some v]"
  by (simp add: setIndex_def)









section \<open>flatten\<close>

lemma flat_not_array: "\<not> isArray v \<Longrightarrow> flat v = [v]"
  by (cases v) simp_all

lemma flat_no_arrays: "y \<in> set (flat v) \<Longrightarrow> \<not> isArray y"
  by (induction v arbitrary: y rule: flat.induct) (auto split: option.splits)

lemma flat_flat: "\<forall>y\<in>set ys. \<not> isArray y \<Longrightarrow> concat (map flat ys) = ys"
  by (induction ys) (simp_all add: flat_not_array)

lemma forEach_flatten:
  assumes "\<And>x out. Some x \<in> set xs \<Longrightarrow> isArray x \<Longrightarrow>
             flattenInternal out x = (Inr Undefined, out @ map Some (flat x))"
  shows "forEach xs
           (\<lambda>elm. invoke (Fn (\<lambda>this args out.
                      if isArray (arg0 args) then flattenInternal out (arg0 args)
                      else (Inr Undefined, out @ [Some (arg0 args)]))) Undefined [elm]) out
         = (Inr Undefined,
            out @ map Some (concat (map (\<lambda>x. case x of None \<Rightarrow> [] | Some v \<Rightarrow> flat v) xs)))"
  using assms
proof (induction xs arbitrary: out)
  case Nil
  show ?case by simp
next
  case (Cons x xs)
  show ?case
  proof (cases x)
    case None
    with Cons show ?thesis by simp
  next
    case (Some v)
    show ?thesis
    proof (cases "isArray v")
      case True
      with Some Cons show ?thesis
        by (simp add: arg0_def)
    next
      case False
      with Some Cons show ?thesis
        by (simp add: arg0_def flat_not_array)
    qed
  qed
qed

lemma flattenInternal_array:
  "isArray element \<Longrightarrow>
   flattenInternal out element = (Inr Undefined, out @ map Some (flat element))"
proof (induction out element rule: flattenInternal.induct)
  case (1 out element)
  from 1(2) obtain r xs where el: "element = Arr r xs"
    by (cases element) simp_all
  have sub: "flattenInternal t x = (Inr Undefined, t @ map Some (flat x))"
    if "Some x \<in> set xs" "isArray x" for x t
    using 1(1) [of x t] that el by (simp add: arg0_def)
  show ?case
    apply (subst flattenInternal.simps)
    apply (simp add: el each_def isArrayLike_def)
    apply (rule forEach_flatten [simplified])
    using sub by simp
qed


text \<open>
  C9. flatten returns, for every argument list, the sequence the specification describes
  (true arrays expanded depth first, left to right, to any depth, everything else appended
  as it is); that sequence holds no true array; and flatten applied to it, under whatever
  reference the returned array has, returns the same sequence again.
\<close>

theorem flatten_idempotent:
  "flatten arrays = Inr (NewArray (map Some (concat (map flat arrays))))
   \<and> (\<forall>y\<in>set (concat (map flat arrays)). \<not> isArray y)
   \<and> flatten [Arr r (map Some (concat (map flat arrays)))] = flatten arrays"
proof -
  have fl: "flatten as = Inr (NewArray (map Some (concat (map flat as))))" for as
    by (simp add: flatten_def flattenInternal_array comp_def)
  have no: "\<forall>y\<in>set (concat (map flat arrays)). \<not> isArray y"
    by (auto dest: flat_no_arrays)
  have "concat (map flat [Arr r (map Some (concat (map flat arrays)))])
      = concat (map flat (concat (map flat arrays)))"
    by (simp add: comp_def)
  also have "\<dots> = concat (map flat arrays)"
    using no by (rule flat_flat)
  finally show ?thesis
    using no by (simp only: fl)
qed

theorem flatten_idempotent_witness:
  "flatten [Arr 1 [Some (Num 1), Some (Arr 2 [Some (Num 2), Some (Arr 3 [Some (Num 3), Some (Num 4)])]),
                   Some (Num 5)]]
     = Inr (NewArray [Some (Num 1), Some (Num 2), Some (Num 3), Some (Num 4), Some (Num 5)])
   \<and> \<not> isArray (Num 1) \<and> \<not> isArray (Num 2) \<and> \<not> isArray (Num 3)
   \<and> \<not> isArray (Num 4) \<and> \<not> isArray (Num 5)
   \<and> flatten [Arr 7 [Some (Num 1), Some (Num 2), Some (Num 3), Some (Num 4), Some (Num 5)]]
     = Inr (NewArray [Some (Num 1), Some (Num 2), Some (Num 3), Some (Num 4), Some (Num 5)])"
  using flatten_idempotent [of "[Arr 1 [Some (Num 1),
      Some (Arr 2 [Some (Num 2), Some (Arr 3 [Some (Num 3), Some (Num 4)])]), Some (Num 5)]]" 7]
  by simp


section \<open>each\<close>

text \<open>
  On a true array each calls the predicate once per filled slot, in ascending order, with
  the element as the only argument and the context as \<^verbatim>\<open>this\<close>; on a truthy value that
  is not array-like it calls the predicate once, with the value.
\<close>

lemma filled_simps [simp]:
  "filled [] = []"
  "filled (None # xs) = filled xs"
  "filled (Some v # xs) = v # filled xs"
  by (simp_all add: filled_def)

lemma forEach_logged:
  "forEach xs (\<lambda>elm. invoke (Fn (logged q)) ctx [elm]) calls
     = (Inr Undefined, calls @ calls_on ctx (filled xs))"
proof (induction xs arbitrary: calls)
  case Nil
  show ?case by simp
next
  case (Cons x xs)
  then show ?case
    by (cases x) (simp_all add: logged_def)
qed

lemma each_on_array:
  "each (Arr r xs) (Fn (logged q)) ctx calls = (Inr Undefined, calls @ calls_on ctx (filled xs))"
  by (simp add: each_def isArrayLike_def forEach_logged)

lemma each_on_single:
  "truthy obj \<Longrightarrow> isArrayLike obj = Inr False \<Longrightarrow>
   each obj (Fn (logged q)) ctx calls = (Inr Undefined, calls @ [(ctx, [obj])])"
  by (simp add: each_def logged_def)


text \<open>
  filter goes through each: on a true array it keeps, in order, the filled slots that the
  predicate accepts, after one call per filled slot.
\<close>

lemma forEach_filter_logged:
  "forEach xs (\<lambda>elm. invoke (Fn (filter_cb (Fn (logged q)) ctx)) Undefined [elm]) (result, calls)
     = (Inr Undefined,
        (result @ map Some (filter (\<lambda>x. truthy (q ctx [x])) (filled xs)),
         calls @ calls_on ctx (filled xs)))"
proof (induction xs arbitrary: result calls)
  case Nil
  show ?case by simp
next
  case (Cons x xs)
  then show ?case
    by (cases x) (simp_all add: filter_cb_def logged_def arg0_def)
qed

lemma filter_on_array:
  "filter_js (Arr r xs) (Fn (logged q)) ctx calls
     = (Inr (NewArray (map Some (filter (\<lambda>x. truthy (q ctx [x])) (filled xs)))),
        calls @ calls_on ctx (filled xs))"
  by (simp add: filter_js_def each_def isArrayLike_def forEach_filter_logged)

text \<open>
  C3 at the object \<^verbatim>\<open>{0: 'a', length: 1}\<close>. The object is truthy and array-like, so the
  predicate should be called once, with \<^verbatim>\<open>'a'\<close>. each throws a TypeError before any call,
  because it iterates with the \<^verbatim>\<open>forEach\<close> method, which only a true array has. some, on
  the same object, reads the element by index and calls the predicate with it.
\<close>

theorem each_array_like_object_throws:
  "truthy (Obj 1 [(''0'', Str ''a''), (''length'', Num 1)])
   \<and> isArrayLike (Obj 1 [(''0'', Str ''a''), (''length'', Num 1)]) = Inr True
   \<and> each (Obj 1 [(''0'', Str ''a''), (''length'', Num 1)]) (Fn (logged accept_all)) Undefined []
       = (Inl TypeError, [])
   \<and> some (Obj 1 [(''0'', Str ''a''), (''length'', Num 1)]) (Fn (logged accept_all)) Undefined []
       = (Inr (Bool True), [(Undefined, [Str ''a''])])"
  by (simp add: each_def some_def isArrayLike_def getProp_def slot_val_def sourceOf_def
      some_loop.simps logged_def accept_all_def string_of_nat.simps digit_char_def)


section \<open>uniqueId\<close>

lemma digit_char_inj: "a < 10 \<Longrightarrow> b < 10 \<Longrightarrow> digit_char a = digit_char b \<Longrightarrow> a = b"
proof -
  have d: "distinct ''0123456789''"
    by simp
  assume "a < 10" "b < 10" "digit_char a = digit_char b"
  then show "a = b"
    using d unfolding digit_char_def
    by (simp add: nth_eq_iff_index_eq)
qed

lemma string_of_nat_nonempty: "string_of_nat n \<noteq> []"
  by (subst string_of_nat.simps) simp

lemma string_of_nat_inj: "string_of_nat n = string_of_nat m \<Longrightarrow> n = m"
proof (induction n arbitrary: m rule: less_induct)
  case (less n)
  show ?case
  proof (cases "n < 10")
    case n: True
    show ?thesis
    proof (cases "m < 10")
      case True
      with n less(2) show ?thesis
        by (subst (asm) (1 2) string_of_nat.simps) (simp add: digit_char_inj)
    next
      case False
      with n less(2) string_of_nat_nonempty [of "m div 10"] show ?thesis
        by (subst (asm) (1 2) string_of_nat.simps) simp
    qed
  next
    case n: False
    show ?thesis
    proof (cases "m < 10")
      case True
      with n less(2) string_of_nat_nonempty [of "n div 10"] show ?thesis
        by (subst (asm) (1 2) string_of_nat.simps) simp
    next
      case False
      with n less(2) have eq: "string_of_nat (n div 10) = string_of_nat (m div 10)"
        and dg: "digit_char (n mod 10) = digit_char (m mod 10)"
        by (subst (asm) (1 2) string_of_nat.simps, simp)+
      from n have "n div 10 < n" by simp
      from less(1) [OF this eq] have "n div 10 = m div 10" .
      moreover from dg have "n mod 10 = m mod 10"
        by (intro digit_char_inj) simp_all
      ultimately show ?thesis
        by (metis div_mult_mod_eq)
    qed
  qed
qed

lemma uniqueId_below:
  "idCounter < 2 ^ 53 \<Longrightarrow>
   uniqueId prefix idCounter = (prefix_text prefix @ string_of_nat (Suc idCounter), Suc idCounter)"
  by (auto simp: uniqueId_def increment_def prefix_text_def Let_def split: option.splits)

lemma uniqueId_calls_nth:
  "idCounter + length prefixes \<le> 2 ^ 53 \<Longrightarrow> i < length prefixes \<Longrightarrow>
   uniqueId_calls prefixes idCounter ! i
     = prefix_text (prefixes ! i) @ string_of_nat (idCounter + i + 1)"
proof (induction prefixes arbitrary: idCounter i)
  case Nil
  then show ?case by simp
next
  case (Cons p ps)
  from Cons(2) have below: "idCounter < 2 ^ 53" by simp
  show ?case
  proof (cases i)
    case 0
    with below show ?thesis by (simp add: uniqueId_below)
  next
    case (Suc k)
    with Cons(2,3) have "Suc idCounter + length ps \<le> 2 ^ 53" "k < length ps"
      by simp_all
    from Cons(1) [OF this] Suc below show ?thesis
      by (simp add: uniqueId_below)
  qed
qed


text \<open>
  C8, as the code has it. The counter starts at 0 and is incremented before use, so the
  first call returns the suffix \<open>1\<close>; a call returns the numeral of the incremented counter,
  behind the prefix when one is given. Of the first \<open>2\<^sup>5\<^sup>3\<close> calls of a process, no two
  that were given the same prefix return the same string.
\<close>

theorem uniqueId_same_prefix_distinct:
  "uniqueId prefix idCounter_init = (prefix_text prefix @ ''1'', 1)
   \<and> (idCounter < 2 ^ 53 \<longrightarrow>
        uniqueId prefix idCounter
          = (prefix_text prefix @ string_of_nat (idCounter + 1), idCounter + 1))
   \<and> (length prefixes \<le> 2 ^ 53 \<longrightarrow> i < j \<longrightarrow> j < length prefixes \<longrightarrow>
        prefix_text (prefixes ! i) = prefix_text (prefixes ! j) \<longrightarrow>
        uniqueId_calls prefixes idCounter_init ! i \<noteq> uniqueId_calls prefixes idCounter_init ! j)"
proof (intro conjI impI)
  show "uniqueId prefix idCounter_init = (prefix_text prefix @ ''1'', 1)"
    by (simp add: idCounter_init_def uniqueId_below string_of_nat.simps digit_char_def)
next
  assume "idCounter < 2 ^ 53"
  then show "uniqueId prefix idCounter
      = (prefix_text prefix @ string_of_nat (idCounter + 1), idCounter + 1)"
    by (simp add: uniqueId_below)
next
  assume len: "length prefixes \<le> 2 ^ 53" and ij: "i < j" and j: "j < length prefixes"
    and same: "prefix_text (prefixes ! i) = prefix_text (prefixes ! j)"
  from ij j have i: "i < length prefixes" by simp
  have "string_of_nat (i + 1) \<noteq> string_of_nat (j + 1)"
    using ij string_of_nat_inj [of "i + 1" "j + 1"] by auto
  then show "uniqueId_calls prefixes idCounter_init ! i \<noteq> uniqueId_calls prefixes idCounter_init ! j"
    using len i j same by (simp add: idCounter_init_def uniqueId_calls_nth)
qed


text \<open>
  Two calls with different prefixes can return the same string: \<^verbatim>\<open>uniqueId('1')\<close> as the
  first call of a process and \<^verbatim>\<open>uniqueId()\<close> as its eleventh both return \<^verbatim>\<open>'11'\<close>.
\<close>

theorem uniqueId_prefix_collision_counterexample:
  "uniqueId_calls [Some ''1'', None, None, None, None, None, None, None, None, None, None]
      idCounter_init ! 0 = ''11''
   \<and> uniqueId_calls [Some ''1'', None, None, None, None, None, None, None, None, None, None]
      idCounter_init ! 10 = ''11''"
  by (simp add: idCounter_init_def uniqueId_def increment_def string_of_nat.simps digit_char_def)

theorem uniqueId_same_prefix_distinct_witness:
  "uniqueId (Some ''id_'') idCounter_init = (''id_1'', 1)
   \<and> (5::nat) < 2 ^ 53
   \<and> uniqueId (Some ''id_'') 5 = (''id_6'', 6)
   \<and> length [Some ''id_'', None, Some ''id_''] \<le> 2 ^ 53 \<and> (0::nat) < 2
   \<and> 2 < length [Some ''id_'', None, Some ''id_'']
   \<and> uniqueId_calls [Some ''id_'', None, Some ''id_''] idCounter_init ! 0
       \<noteq> uniqueId_calls [Some ''id_'', None, Some ''id_''] idCounter_init ! 2"
  using uniqueId_same_prefix_distinct [of "Some ''id_''" 5 "[Some ''id_'', None, Some ''id_'']" 0 2]
  by (simp add: prefix_text_def string_of_nat.simps digit_char_def uniqueId_def increment_def
      idCounter_init_def)


section \<open>omit\<close>

text \<open>
  With a sequence of keys, or with no \<open>fields\<close> at all, omit does what its documentation
  says: on a plain object with ordinary names for keys (each once, the inherited
  \<^verbatim>\<open>hasOwnProperty\<close> not shadowed) it returns a new object with the properties whose key
  is not listed, in their order.
\<close>

lemma setProp_fresh:
  "key \<notin> fst ` set result \<Longrightarrow> key_index key = None \<Longrightarrow> setProp result key v = result @ [(key, v)]"
  by (simp add: setProp_def)

lemma assignFresh_named:
  "key \<notin> fst ` set result \<Longrightarrow> key_index key = None \<Longrightarrow> key \<noteq> ''__proto__'' \<Longrightarrow>
   assignFresh (None, result) key v = (None, result @ [(key, v)])"
  by (simp add: assignFresh_def setProp_fresh)

lemma indexOf_from_less: "(indexOf_from i xs v < 0) = (\<forall>x. Some x \<in> set xs \<longrightarrow> \<not> strict_eq x v)"
proof (induction xs arbitrary: i)
  case Nil
  show ?case by simp
next
  case (Cons a xs)
  then show ?case by (cases a) auto
qed

lemma strict_eq_Str: "strict_eq x (Str k) = (x = Str k)"
  by (cases x) auto

lemma indexOf_key: "(indexOf ks (Str k) < 0) = (Some (Str k) \<notin> set ks)"
  by (auto simp: indexOf_def indexOf_from_less strict_eq_Str)

lemma omit_loop_keep:
  assumes "hasOwnProperty_callable obj"
    and "\<And>k. k \<in> set ks \<Longrightarrow>
           (\<not> truthy fields \<and> keep k)
           \<or> (truthy fields \<and> (\<exists>i. fieldsIndexOf fields k = Inr i \<and> keep k = (i < 0)))"
    and "distinct ks"
    and "fst ` set result \<inter> set ks = {}"
    and "\<forall>k\<in>set ks. key_index k = None \<and> k \<noteq> ''__proto__''"
  shows "omit_loop obj fields ks (None, result)
           = Inr (None, result @ map (\<lambda>k. (k, getProp (ownEnumerable obj) k)) (filter keep ks))"
  using assms(2-)
proof (induction ks arbitrary: result)
  case Nil
  show ?case by simp
next
  case (Cons k ks)
  have fresh: "k \<notin> fst ` set result"
    using Cons(4) by auto
  have named: "key_index k = None" "k \<noteq> ''__proto__''"
    using Cons(5) by simp_all
  have rest: "fst ` set (result @ [(k, v)]) \<inter> set ks = {}" for v
    using Cons(3,4) by auto
  have rest': "fst ` set result \<inter> set ks = {}"
    using Cons(4) by auto
  have dist: "distinct ks"
    using Cons(3) by simp
  have dec: "\<And>k'. k' \<in> set ks \<Longrightarrow>
           (\<not> truthy fields \<and> keep k')
           \<or> (truthy fields \<and> (\<exists>i. fieldsIndexOf fields k' = Inr i \<and> keep k' = (i < 0)))"
    using Cons(2) by simp
  have names: "\<forall>k\<in>set ks. key_index k = None \<and> k \<noteq> ''__proto__''"
    using Cons(5) by simp
  note IH1 = Cons(1) [OF dec dist rest names]
  note IH2 = Cons(1) [OF dec dist rest' names]
  from Cons(2) [of k]
  consider "\<not> truthy fields" "keep k"
    | i where "truthy fields" "fieldsIndexOf fields k = Inr i" "keep k = (i < 0)"
    by auto
  then show ?case
  proof cases
    case 1
    then show ?thesis
      using assms(1) by (simp add: assignFresh_named [OF fresh named] IH1)
  next
    case 2
    then show ?thesis
      using assms(1) by (simp add: assignFresh_named [OF fresh named] IH1 IH2)
  qed
qed

lemma props_lookup:
  "distinct (map fst ps) \<Longrightarrow>
   map (\<lambda>k. (k, getProp ps k)) (filter keep (map fst ps)) = filter (\<lambda>(k, v). keep k) ps"
proof -
  assume d: "distinct (map fst ps)"
  have "\<And>qs. set qs \<subseteq> set ps \<Longrightarrow>
     map (\<lambda>k. (k, getProp ps k)) (filter keep (map fst qs)) = filter (\<lambda>(k, v). keep k) qs"
  proof -
    fix qs show "set qs \<subseteq> set ps \<Longrightarrow>
     map (\<lambda>k. (k, getProp ps k)) (filter keep (map fst qs)) = filter (\<lambda>(k, v). keep k) qs"
      by (induction qs) (auto simp: getProp_def slot_val_def d)
  qed
  then show ?thesis by simp
qed

lemma omit_array_of_keys:
  assumes "distinct (map fst ps)" and "''hasOwnProperty'' \<notin> fst ` set ps"
    and "string_keyed ps"
  shows "omit (Obj r ps) (Arr r' ks)
           = Inr (NewObject (filter (\<lambda>(k, v). Some (Str k) \<notin> set ks) ps))"
proof -
  have "omit_loop (Obj r ps) (Arr r' ks) (map fst ps) (None, [])
      = Inr (None, [] @ map (\<lambda>k. (k, getProp (ownEnumerable (Obj r ps)) k))
                       (filter (\<lambda>k. Some (Str k) \<notin> set ks) (map fst ps)))"
    using assms by (intro omit_loop_keep) (simp_all add: indexOf_key string_keyed_def)
  then show ?thesis
    using assms(1) by (simp add: omit_def props_lookup)
qed

lemma omit_no_fields:
  assumes "distinct (map fst ps)" and "''hasOwnProperty'' \<notin> fst ` set ps"
    and "string_keyed ps" and "\<not> truthy fields"
  shows "omit (Obj r ps) fields = Inr (NewObject ps)"
proof -
  have "omit_loop (Obj r ps) fields (map fst ps) (None, [])
      = Inr (None, [] @ map (\<lambda>k. (k, getProp (ownEnumerable (Obj r ps)) k))
                       (filter (\<lambda>k. True) (map fst ps)))"
    using assms by (intro omit_loop_keep) (simp_all add: string_keyed_def)
  then show ?thesis
    using assms(1) props_lookup [of ps "\<lambda>k. True"] by (simp add: omit_def)
qed

text \<open>
  C4 at \<^verbatim>\<open>omit({id: 1, identifier: 2}, 'identifier')\<close>. The single key names one
  property, so \<^verbatim>\<open>{id: 1}\<close> is expected, and is what the one-element list of that key gives.
  With the string, \<^verbatim>\<open>fields.indexOf(key)\<close> is a substring search: \<^verbatim>\<open>'id'\<close> occurs in
  \<^verbatim>\<open>'identifier'\<close>, the property \<^verbatim>\<open>id\<close> is dropped as well, and the result is empty.
\<close>

theorem omit_single_key_substring:
  "omit (Obj 1 [(''id'', Num 1), (''identifier'', Num 2)]) (Str ''identifier'')
     = Inr (NewObject [])
   \<and> omit (Obj 1 [(''id'', Num 1), (''identifier'', Num 2)]) (Arr 2 [Some (Str ''identifier'')])
     = Inr (NewObject [(''id'', Num 1)])"
  by (simp add: omit_def indexOf_def getProp_def slot_val_def assignFresh_def setProp_def
      key_index_def digits_value_def string_of_nat.simps digit_char_def)


section \<open>union\<close>

text \<open>
  On arguments that each can walk (falsy values, true arrays, values that are not
  array-like) union returns the first occurrences of the values offered, in order: each
  distinct value once, by strict equality.
\<close>

lemma strict_eq_sym: "strict_eq a b \<Longrightarrow> strict_eq b a"
  by (cases a; cases b) simp_all

lemma strict_eq_trans: "strict_eq a b \<Longrightarrow> strict_eq b c \<Longrightarrow> strict_eq a c"
  by (cases a; cases b; cases c) simp_all

lemma forEach_union_cb:
  "forEach xs (\<lambda>elm. invoke (Fn union_cb) Undefined [elm]) result
     = (Inr Undefined, foldl union_step result (filled xs))"
proof (induction xs arbitrary: result)
  case Nil
  show ?case by simp
next
  case (Cons x xs)
  then show ?case
    by (cases x) (simp_all add: union_cb_def union_step_def arg0_def)
qed

lemma each_union_cb:
  "forEach_able arr \<Longrightarrow> truthy arr \<Longrightarrow>
   each arr (Fn union_cb) Undefined result = (Inr Undefined, foldl union_step result (candidates arr))"
proof (cases "isArray arr")
  case True
  then obtain r xs where "arr = Arr r xs" by (cases arr) simp_all
  then show ?thesis
    by (simp add: each_def isArrayLike_def forEach_union_cb candidates_def)
next
  case False
  assume "forEach_able arr" "truthy arr"
  with False have al: "isArrayLike arr = Inr False"
    by (simp add: forEach_able_def)
  from False have "candidates arr = [arr]"
    using \<open>truthy arr\<close> by (cases arr) (simp_all add: candidates_def)
  with al \<open>truthy arr\<close> show ?thesis
    by (simp add: each_def union_cb_def union_step_def arg0_def)
qed

lemma forEach_union:
  "\<forall>arr\<in>set arrs. forEach_able arr \<Longrightarrow>
   forEach (map Some arrs)
     (\<lambda>arr result. if truthy arr then each arr (Fn union_cb) Undefined result
                    else (Inr Undefined, result)) result
     = (Inr Undefined, foldl union_step result (concat (map candidates arrs)))"
proof (induction arrs arbitrary: result)
  case Nil
  show ?case by simp
next
  case (Cons arr arrs)
  show ?case
  proof (cases "truthy arr")
    case True
    with Cons show ?thesis by (simp add: each_union_cb)
  next
    case False
    with Cons show ?thesis by (simp add: candidates_def)
  qed
qed

lemma indexOf_dense: "(indexOf (map Some kept) x < 0) = (\<forall>z\<in>set kept. \<not> strict_eq z x)"
  by (auto simp: indexOf_def indexOf_from_less)

lemma union_fold:
  assumes "set kept \<subseteq> set seen"
    and "\<And>y x. y \<in> set seen \<Longrightarrow> strict_eq y x \<Longrightarrow> \<exists>z\<in>set kept. strict_eq z x"
  shows "foldl union_step (map Some kept) cs = map Some (kept @ first_occurrences seen cs)"
  using assms
proof (induction cs arbitrary: kept seen)
  case Nil
  show ?case by simp
next
  case (Cons c cs)
  show ?case
  proof (cases "\<exists>y\<in>set seen. strict_eq y c")
    case True
    then obtain z where z: "z \<in> set kept" "strict_eq z c"
      using Cons(3) by blast
    have sub: "set kept \<subseteq> set (seen @ [c])"
      using Cons(2) by auto
    have rep: "\<exists>z\<in>set kept. strict_eq z x" if "y \<in> set (seen @ [c])" "strict_eq y x" for y x
    proof (cases "y \<in> set seen")
      case True
      with that Cons(3) show ?thesis by blast
    next
      case False
      with that have "y = c" by simp
      with that z strict_eq_trans show ?thesis by blast
    qed
    from Cons(1) [OF sub rep] True z show ?thesis
      by (auto simp: union_step_def indexOf_dense)
  next
    case False
    with Cons(2) have none: "\<forall>z\<in>set kept. \<not> strict_eq z c"
      by blast
    have sub: "set (kept @ [c]) \<subseteq> set (seen @ [c])"
      using Cons(2) by auto
    have rep: "\<exists>z\<in>set (kept @ [c]). strict_eq z x" if "y \<in> set (seen @ [c])" "strict_eq y x"
      for y x
    proof (cases "y \<in> set seen")
      case True
      with that Cons(3) show ?thesis by fastforce
    next
      case False
      with that have "y = c" by simp
      with that show ?thesis by simp
    qed
    from Cons(1) [OF sub rep] False none show ?thesis
      by (simp add: union_step_def indexOf_dense)
  qed
qed

lemma union_first_occurrences:
  assumes "\<forall>arr\<in>set arrs. forEach_able arr"
  shows "union_js arrs
           = Inr (NewArray (map Some (first_occurrences [] (concat (map candidates arrs)))))"
proof -
  have "foldl union_step (map Some []) (concat (map candidates arrs))
      = map Some ([] @ first_occurrences [] (concat (map candidates arrs)))"
    by (rule union_fold) simp_all
  then show ?thesis
    using assms by (simp add: union_js_def forEach_union)
qed

text \<open>
  C7 at the single argument \<^verbatim>\<open>{0: 'a', length: 1}\<close>: union goes through each, and throws
  a TypeError where a sequence holding the element is expected.
\<close>

theorem union_array_like_object_throws:
  "union_js [Obj 1 [(''0'', Str ''a''), (''length'', Num 1)]] = Inl TypeError"
  by (simp add: union_js_def each_def isArrayLike_def getProp_def slot_val_def)


section \<open>Runtime faults\<close>

lemma isArrayLike_throws: "(isArrayLike v = Inl TypeError) = (v = Undefined \<or> v = Null)"
  by (cases v) (auto simp: isArrayLike_def split: val.splits)



















































text \<open>
  The faults of extend, on concrete calls: a source that shadows \<^verbatim>\<open>hasOwnProperty\<close>; a
  primitive as target of a copy; the target itself as the \<^verbatim>\<open>__proto__\<close> to copy; a
  \<^verbatim>\<open>length\<close> for an array that is no array length; the target as a source after null
  has become its prototype. And two calls that complete: a prototype set, and an array
  target that receives a slot, a length and a named property.
\<close>

lemma extend_faults:
  "extend (Obj 1 []) [Obj 2 [(''hasOwnProperty'', Num 1)]] = Some (Inl TypeError)"
  "extend (Num 5) [Obj 2 [(''a'', Num 1)]] = Some (Inl TypeError)"
  "extend (Obj 1 []) [Obj 2 [(''__proto__'', Obj 1 [])]] = Some (Inl TypeError)"
  "extend (Arr 1 []) [Obj 2 [(''length'', Num (- 1))]] = Some (Inl RangeError)"
  "extend (Obj 1 [(''a'', Num 1)]) [Obj 2 [(''__proto__'', Null)], Obj 1 [(''a'', Num 1)]]
     = Some (Inl TypeError)"
  "extend (Obj 1 []) [Obj 2 [(''__proto__'', Obj 3 [(''a'', Num 1)])]]
     = Some (Inr (Target (Obj 1 []) [] (Some (Obj 3 [(''a'', Num 1)]))))"
  "extend (Arr 1 [Some (Num 7)]) [Obj 2 [(''2'', Num 9), (''length'', Str ''4''), (''a'', Null)]]
     = Some (Inr (Target (Arr 1 [Some (Num 7), None, Some (Num 9), None]) [(''a'', Null)] None))"
  by (simp_all add: extend_def source_view_def getProp_def slot_val_def setProp_def
      key_index_def digits_value_def string_of_nat.simps digit_char_def setIndex_def
      set_length_def)





end
